theory Spec2Isabelle
  imports Main
begin

section \<open>JavaScript values and JSON text\<close>

text \<open>
  The values that travel through \<open>JSON.parse\<close>, \<open>JSON.stringify\<close> and the request
  bodies. Strings are lists of code units below 256. The only number the code builds
  itself is \<open>-1\<close>; numbers of inbound payloads are carried along and never inspected,
  so numbers are modelled by integers.
\<close>

datatype jsval =
    JUndefined
  | JNull
  | JBool bool
  | JNumber int
  | JString string
  | JArray "jsval list"
  | JObject "(string \<times> jsval) list"

datatype js_error = TypeError | SyntaxError

text \<open>\<open>ToBoolean\<close>: what \<open>!x\<close>, \<open>x || y\<close> and \<open>if (x)\<close> test.\<close>

fun truthy :: "jsval \<Rightarrow> bool" where
  "truthy JUndefined = False"
| "truthy JNull = False"
| "truthy (JBool b) = b"
| "truthy (JNumber n) = (n \<noteq> 0)"
| "truthy (JString s) = (s \<noteq> [])"
| "truthy (JArray xs) = True"
| "truthy (JObject kvs) = True"

fun nullish :: "jsval \<Rightarrow> bool" where
  "nullish JUndefined = True"
| "nullish JNull = True"
| "nullish v = False"

text \<open>
  Reading a property \<open>v.k\<close>, for the names the code reads (\<open>accounts\<close>, \<open>prompt\<close>,
  \<open>room_config\<close>, \<open>agents\<close>, \<open>agent_name\<close>): none of them is a property of an array, a
  string, a number or a boolean, so only an object can answer. Reading a property of
  \<open>null\<close> or \<open>undefined\<close> raises a TypeError.
\<close>

fun get_prop :: "jsval \<Rightarrow> string \<Rightarrow> js_error + jsval" where
  "get_prop JUndefined k = Inl TypeError"
| "get_prop JNull k = Inl TypeError"
| "get_prop (JObject kvs) k = Inr (case map_of kvs k of Some v \<Rightarrow> v | None \<Rightarrow> JUndefined)"
| "get_prop v k = Inr JUndefined"

text \<open>Optional chaining \<open>v?.k\<close> never raises: a nullish receiver yields \<open>undefined\<close>.\<close>

definition opt_prop :: "jsval \<Rightarrow> string \<Rightarrow> jsval" where
  "opt_prop v k = (case get_prop v k of Inl e \<Rightarrow> JUndefined | Inr x \<Rightarrow> x)"

text \<open>\<open>v?.[0]\<close>: the first element of an array, the first code unit of a string.\<close>

fun opt_first :: "jsval \<Rightarrow> jsval" where
  "opt_first (JArray (x # xs)) = x"
| "opt_first (JString (c # cs)) = JString [c]"
| "opt_first (JObject kvs) = (case map_of kvs ''0'' of Some v \<Rightarrow> v | None \<Rightarrow> JUndefined)"
| "opt_first v = JUndefined"

subsection \<open>JSON.stringify\<close>

definition hexDigit :: "nat \<Rightarrow> char" where
  "hexDigit n = ''0123456789abcdef'' ! (n mod 16)"

text \<open>\<open>QuoteJSONString\<close>: the two-character escapes, \<open>\u00XX\<close> for the other control
  characters, every other code unit as it is.\<close>

definition quoteChar :: "char \<Rightarrow> string" where
  "quoteChar c =
     (if c = CHR 0x08 then [CHR 0x5C, CHR ''b'']
      else if c = CHR 0x09 then [CHR 0x5C, CHR ''t'']
      else if c = CHR 0x0A then [CHR 0x5C, CHR ''n'']
      else if c = CHR 0x0C then [CHR 0x5C, CHR ''f'']
      else if c = CHR 0x0D then [CHR 0x5C, CHR ''r'']
      else if c = CHR 0x22 then [CHR 0x5C, CHR 0x22]
      else if c = CHR 0x5C then [CHR 0x5C, CHR 0x5C]
      else if (of_char c :: nat) < 32
        then [CHR 0x5C, CHR ''u'', CHR ''0'', CHR ''0'',
              hexDigit (of_char c div 16), hexDigit (of_char c mod 16)]
      else [c])"

definition QuoteJSONString :: "string \<Rightarrow> string" where
  "QuoteJSONString s = [CHR 0x22] @ concat (map quoteChar s) @ [CHR 0x22]"

function digitsOf :: "nat \<Rightarrow> string" where
  "digitsOf n =
     (if n < 10 then [''0123456789'' ! n]
      else digitsOf (n div 10) @ [''0123456789'' ! (n mod 10)])"
  by pat_completeness auto
termination
  by (relation "measure id") auto

declare digitsOf.simps [simp del]

definition Number_toString :: "int \<Rightarrow> string" where
  "Number_toString i =
     (if i < 0 then CHR ''-'' # digitsOf (nat (- i)) else digitsOf (nat i))"

fun join_comma :: "string list \<Rightarrow> string" where
  "join_comma [] = []"
| "join_comma [x] = x"
| "join_comma (x # y # ys) = x @ '','' @ join_comma (y # ys)"

text \<open>
  \<open>SerializeJSONProperty\<close>: \<open>undefined\<close> has no JSON text (\<open>None\<close>); a member whose
  value is \<open>undefined\<close> is left out of an object, an element that is \<open>undefined\<close> is
  written \<open>null\<close> in an array.
\<close>

fun JSON_stringify :: "jsval \<Rightarrow> string option"
  and stringifyMembers :: "(string \<times> jsval) list \<Rightarrow> string list"
  and stringifyElements :: "jsval list \<Rightarrow> string list"
where
  "JSON_stringify JUndefined = None"
| "JSON_stringify JNull = Some ''null''"
| "JSON_stringify (JBool b) = Some (if b then ''true'' else ''false'')"
| "JSON_stringify (JNumber n) = Some (Number_toString n)"
| "JSON_stringify (JString s) = Some (QuoteJSONString s)"
| "JSON_stringify (JArray xs) = Some (''['' @ join_comma (stringifyElements xs) @ '']'')"
| "JSON_stringify (JObject kvs) = Some (''{'' @ join_comma (stringifyMembers kvs) @ ''}'')"
| "stringifyMembers [] = []"
| "stringifyMembers ((k, v) # kvs) =
     (case JSON_stringify v of
        None \<Rightarrow> stringifyMembers kvs
      | Some t \<Rightarrow> (QuoteJSONString k @ '':'' @ t) # stringifyMembers kvs)"
| "stringifyElements [] = []"
| "stringifyElements (x # xs) =
     (case JSON_stringify x of None \<Rightarrow> ''null'' | Some t \<Rightarrow> t) # stringifyElements xs"

text \<open>\<open>JSON.stringify({k1: v1, ...})\<close> of an object literal always is a string.\<close>

definition stringifyObject :: "(string \<times> jsval) list \<Rightarrow> string" where
  "stringifyObject kvs = ''{'' @ join_comma (stringifyMembers kvs) @ ''}''"

subsection \<open>String.prototype.trim and the TPIN pattern\<close>

definition isWhiteSpace :: "char \<Rightarrow> bool" where
  "isWhiteSpace c =
     (c \<in> set [CHR 0x09, CHR 0x0A, CHR 0x0B, CHR 0x0C, CHR 0x0D, CHR 0x20, CHR 0xA0])"

definition trim :: "string \<Rightarrow> string" where
  "trim s = rev (dropWhile isWhiteSpace (rev (dropWhile isWhiteSpace s)))"

definition isDigit :: "char \<Rightarrow> bool" where
  "isDigit c = (48 \<le> (of_char c :: nat) \<and> (of_char c :: nat) \<le> 57)"

text \<open>The test \<open>/^[0-9]{4}$/.test(trimmed)\<close>.\<close>

definition tpinPattern :: "string \<Rightarrow> bool" where
  "tpinPattern s = (length s = 4 \<and> list_all isDigit s)"

section \<open>The prompt bridge of the session view\<close>

datatype field = AccountNumber | Tpin

datatype prompt_type = chooseAccount | input

text \<open>
  \<open>RpcPrompt\<close>: the tagged union held in the \<open>rpcPrompt\<close> state. The \<open>resolve\<close> and
  \<open>reject\<close> functions of a prompt belong to one promise, named here by its index in the
  list of promises created so far.
\<close>

datatype RpcPrompt =
    ChooseAccount (prompt : jsval) (accounts : "jsval list") (promise : nat)
  | Input (field : field) (title : string) (description : string) (promise : nat)

datatype promise_state = Pending | Fulfilled string | Rejected js_error

record view =
  rpcPrompt :: "RpcPrompt option"
  inputValue :: string
  promises :: "promise_state list"

definition initial :: view where
  "initial = \<lparr>rpcPrompt = None, inputValue = [], promises = []\<rparr>"

fun type_of :: "RpcPrompt option \<Rightarrow> prompt_type option" where
  "type_of None = None"
| "type_of (Some (ChooseAccount pr accs p)) = Some chooseAccount"
| "type_of (Some (Input f t d p)) = Some input"

text \<open>\<open>new Promise(...)\<close>: a fresh pending promise.\<close>

definition newPromise :: "view \<Rightarrow> nat \<times> view" where
  "newPromise s = (length (promises s), s\<lparr>promises := promises s @ [Pending]\<rparr>)"

text \<open>Settling a promise; a promise that is already settled stays as it is.\<close>

definition settle :: "nat \<Rightarrow> promise_state \<Rightarrow> view \<Rightarrow> view" where
  "settle p r s =
     (if p < length (promises s) \<and> promises s ! p = Pending
      then s\<lparr>promises := (promises s)[p := r]\<rparr> else s)"

definition resolve :: "nat \<Rightarrow> string \<Rightarrow> view \<Rightarrow> view" where
  "resolve p payload s = settle p (Fulfilled payload) s"

definition reject :: "nat \<Rightarrow> js_error \<Rightarrow> view \<Rightarrow> view" where
  "reject p e s = settle p (Rejected e) s"

text \<open>
  \<open>setRpcPrompt\<close>, together with the effect that depends on \<open>rpcPrompt?.type\<close>: the
  input buffer is emptied when the type of the prompt changes.
\<close>

definition setRpcPrompt :: "RpcPrompt option \<Rightarrow> view \<Rightarrow> view" where
  "setRpcPrompt p s =
     s\<lparr>rpcPrompt := p,
       inputValue := (if type_of p = type_of (rpcPrompt s) then inputValue s else [])\<rparr>"

definition setInputValue :: "string \<Rightarrow> view \<Rightarrow> view" where
  "setInputValue v s = s\<lparr>inputValue := v\<rparr>"

text \<open>
  The three RPC handlers. Each is an async function: the promise it returns is the one
  created here, and an exception raised in its body rejects that promise.
  \<open>JSON_parse\<close> stands for the platform's \<open>JSON.parse\<close>: \<open>None\<close> when it raises.
\<close>

definition parsePayload :: "(string \<Rightarrow> jsval option) \<Rightarrow> string \<Rightarrow> jsval" where
  "parsePayload JSON_parse payload =
     (case JSON_parse (if payload = [] then ''{}'' else payload) of
        Some v \<Rightarrow> v
      | None \<Rightarrow> JObject [(''accounts'', JArray []), (''prompt'', JString [])])"

definition handleChooseAccount :: "(string \<Rightarrow> jsval option) \<Rightarrow> string \<Rightarrow> view \<Rightarrow> view" where
  "handleChooseAccount JSON_parse payload s =
     (let (p, s1) = newPromise s;
          parsed = parsePayload JSON_parse payload
      in case get_prop parsed ''accounts'' of
           Inl e \<Rightarrow> reject p e s1
         | Inr a \<Rightarrow>
             (let accounts = (case a of
                                JArray xs \<Rightarrow> (if length xs > 0 then xs else [])
                              | _ \<Rightarrow> [])
              in case get_prop parsed ''prompt'' of
                   Inl e \<Rightarrow> reject p e s1
                 | Inr pr \<Rightarrow>
                     setRpcPrompt
                       (Some (ChooseAccount (if nullish pr then JString [] else pr) accounts p))
                       s1))"

definition handleRequestPayeeAccNo :: "string \<Rightarrow> view \<Rightarrow> view" where
  "handleRequestPayeeAccNo payload s =
     (let (p, s1) = newPromise s;
          description = (if payload = [] then ''Enter the payee account number'' else payload)
      in setRpcPrompt (Some (Input AccountNumber ''Payee account number'' description p)) s1)"

definition handleRequestTpin :: "string \<Rightarrow> view \<Rightarrow> view" where
  "handleRequestTpin payload s =
     (let (p, s1) = newPromise s;
          description = (if payload = [] then ''Enter your transaction PIN'' else payload)
      in setRpcPrompt (Some (Input Tpin ''Transaction PIN'' description p)) s1)"

text \<open>The three handlers of the user's actions.\<close>

definition handleAccountSelect :: "jsval \<Rightarrow> view \<Rightarrow> view" where
  "handleAccountSelect accountId s =
     (case rpcPrompt s of
        Some (ChooseAccount pr accs p) \<Rightarrow>
          setRpcPrompt None (resolve p (stringifyObject [(''accountId'', accountId)]) s)
      | _ \<Rightarrow> s)"

definition cancelPayload :: "RpcPrompt \<Rightarrow> string" where
  "cancelPayload pr =
     (if type_of (Some pr) = Some input
      then stringifyObject [(''tpin'', JNumber (- 1)), (''accountNumber'', JNumber (- 1))]
      else stringifyObject [(''accountId'', JNumber (- 1))])"

definition handleAccountCancel :: "view \<Rightarrow> view" where
  "handleAccountCancel s =
     (case rpcPrompt s of
        None \<Rightarrow> s
      | Some pr \<Rightarrow> setRpcPrompt None (resolve (promise pr) (cancelPayload pr) s))"

definition handleInputSubmit :: "view \<Rightarrow> view" where
  "handleInputSubmit s =
     (case rpcPrompt s of
        Some (Input f t d p) \<Rightarrow>
          (let trimmed = trim (inputValue s)
           in if trimmed = [] then s
              else if f = Tpin \<and> \<not> tpinPattern trimmed then s
              else let payload =
                         (if f = AccountNumber
                          then stringifyObject [(''accountNumber'', JString trimmed)]
                          else stringifyObject [(''tpin'', JString trimmed)])
                   in setRpcPrompt None (resolve p payload s))
      | _ \<Rightarrow> s)"

text \<open>
  What can happen to one session view: the agent calls one of the three registered
  methods, or the user acts on the prompt on screen. The text field exists only while
  an input prompt is shown.
\<close>

datatype event =
    CallChooseAccount string
  | CallRequestPayeeAccNo string
  | CallRequestTpin string
  | ClickAccount jsval
  | ClickCancel
  | Typed string
  | Submit

fun step :: "(string \<Rightarrow> jsval option) \<Rightarrow> view \<Rightarrow> event \<Rightarrow> view" where
  "step JSON_parse s (CallChooseAccount payload) = handleChooseAccount JSON_parse payload s"
| "step JSON_parse s (CallRequestPayeeAccNo payload) = handleRequestPayeeAccNo payload s"
| "step JSON_parse s (CallRequestTpin payload) = handleRequestTpin payload s"
| "step JSON_parse s (ClickAccount accountId) = handleAccountSelect accountId s"
| "step JSON_parse s ClickCancel = handleAccountCancel s"
| "step JSON_parse s (Typed v) =
     (if type_of (rpcPrompt s) = Some input then setInputValue v s else s)"
| "step JSON_parse s Submit = handleInputSubmit s"

definition run :: "(string \<Rightarrow> jsval option) \<Rightarrow> view \<Rightarrow> event list \<Rightarrow> view" where
  "run JSON_parse s evs = foldl (step JSON_parse) s evs"

section \<open>The session store and the HTTP routes\<close>

text \<open>
  The two collections of the database. A \<open>Date\<close> is its number of milliseconds since
  the epoch. \<open>revoked_at\<close> is absent until a logout writes it.
\<close>

record session =
  session_id :: string
  user_id :: string
  created_at :: int
  expires_at :: int
  active :: bool
  revoked_at :: "int option"

record user =
  u_user_id :: string
  u_password_hash :: string
  u_name :: "string option"

record db =
  users :: "user list"
  sessions :: "session list"

text \<open>\<open>findOne\<close> is \<^const>\<open>find\<close>: the first document that matches. \<open>updateOne\<close> changes
  the first document that matches and no other.\<close>

fun updateOne :: "('a \<Rightarrow> bool) \<Rightarrow> ('a \<Rightarrow> 'a) \<Rightarrow> 'a list \<Rightarrow> 'a list" where
  "updateOne P f [] = []"
| "updateOne P f (x # xs) = (if P x then f x # xs else x # updateOne P f xs)"

subsection \<open>POST /auth/login\<close>

datatype login_response =
    LoginOk string string string int
  | LoginError nat string

text \<open>
  \<open>uid\<close> and \<open>password\<close> are the two fields taken from the request body (\<open>None\<close> when
  absent). \<open>Date_now\<close> is what \<open>Date.now()\<close> returns when the expiry is computed and
  \<open>new_Date\<close> what \<open>new Date()\<close> returns when the document is built: two readings of
  the clock. \<open>bcrypt_compare\<close> and \<open>randomUUID\<close> stand for the two library calls.
\<close>

definition POST_login ::
  "(string \<Rightarrow> string \<Rightarrow> bool) \<Rightarrow> string \<Rightarrow> int \<Rightarrow> int \<Rightarrow>
   string option \<Rightarrow> string option \<Rightarrow> db \<Rightarrow> login_response \<times> db" where
  "POST_login bcrypt_compare randomUUID Date_now new_Date uid password d =
     (case (uid, password) of
        (Some u, Some pw) \<Rightarrow>
          (if u = [] \<or> pw = [] then (LoginError 400 ''Missing credentials'', d)
           else case find (\<lambda>x. u_user_id x = u) (users d) of
                  None \<Rightarrow> (LoginError 401 ''Invalid credentials'', d)
                | Some usr \<Rightarrow>
                    (if \<not> bcrypt_compare pw (u_password_hash usr)
                     then (LoginError 401 ''Invalid credentials'', d)
                     else let sid = randomUUID;
                              expires = Date_now + 1000 * 60 * 60 * 24
                          in (LoginOk sid u (case u_name usr of Some n \<Rightarrow> n | None \<Rightarrow> []) expires,
                              d\<lparr>sessions := sessions d @
                                 [\<lparr>session_id = sid, user_id = u, created_at = new_Date,
                                   expires_at = expires, active = True,
                                   revoked_at = None\<rparr>]\<rparr>)))
      | _ \<Rightarrow> (LoginError 400 ''Missing credentials'', d))"

subsection \<open>POST /auth/logout\<close>

datatype logout_response = LogoutOk | LogoutError nat string

definition POST_logout :: "int \<Rightarrow> string option \<Rightarrow> db \<Rightarrow> logout_response \<times> db" where
  "POST_logout new_Date sid d =
     (case sid of
        None \<Rightarrow> (LogoutError 400 ''Missing session_id'', d)
      | Some i \<Rightarrow>
          (if i = [] then (LogoutError 400 ''Missing session_id'', d)
           else (LogoutOk,
                 d\<lparr>sessions :=
                     updateOne (\<lambda>r. session_id r = i)
                       (\<lambda>r. r\<lparr>active := False, revoked_at := Some new_Date\<rparr>)
                       (sessions d)\<rparr>)))"

subsection \<open>POST /connection-details\<close>

record env =
  LIVEKIT_API_KEY :: "string option"
  LIVEKIT_API_SECRET :: "string option"
  LIVEKIT_URL :: "string option"

record VideoGrant =
  room :: string
  roomJoin :: bool
  canPublish :: bool
  canPublishData :: bool
  canSubscribe :: bool

text \<open>The access token is represented by what it is built from: the key and the secret,
  the options, the grant and the room configuration.\<close>

record AccessToken =
  apiKey :: string
  apiSecret :: string
  identity :: string
  name :: string
  metadata :: string
  ttl :: string
  grant :: VideoGrant
  roomConfig :: "jsval option"

record ConnectionDetails =
  serverUrl :: string
  participantName :: string
  participantToken :: AccessToken
  roomName :: string

datatype conn_response = Json ConnectionDetails | Text nat string

fun status :: "conn_response \<Rightarrow> nat" where
  "status (Json details) = 200"
| "status (Text code msg) = code"

text \<open>
  A request: its headers, and what \<open>req.json()\<close> gives (\<open>Inl\<close> the message of the error
  it raises when the body is not JSON text). The queries sent to the database are
  recorded in the order they are made.
\<close>

record request =
  headers :: "string \<Rightarrow> string option"
  json :: "string + jsval"

datatype db_op = FindSession string string int | FindUser string

definition findSession :: "db \<Rightarrow> string \<Rightarrow> string \<Rightarrow> int \<Rightarrow> session option" where
  "findSession d sid uid now =
     find (\<lambda>r. session_id r = sid \<and> user_id r = uid \<and> active r = True \<and> expires_at r > now)
       (sessions d)"

text \<open>\<open>body?.room_config?.agents?.[0]?.agent_name\<close>\<close>

definition agentNameOf :: "jsval \<Rightarrow> jsval" where
  "agentNameOf body =
     opt_prop (opt_first (opt_prop (opt_prop body ''room_config'') ''agents'')) ''agent_name''"

text \<open>What \<open>createParticipantToken\<close> hands to the token library: the options with the
  fixed \<open>ttl\<close>, the grant, and the room configuration when an agent name is given.\<close>

definition new_AccessToken ::
  "string \<Rightarrow> string \<Rightarrow> string \<Rightarrow> string \<Rightarrow> string \<Rightarrow> string \<Rightarrow> jsval \<Rightarrow> AccessToken" where
  "new_AccessToken API_KEY API_SECRET ident nm meta rn agentName =
     \<lparr>apiKey = API_KEY, apiSecret = API_SECRET, identity = ident, name = nm,
      metadata = meta, ttl = ''15m'',
      grant = \<lparr>room = rn, roomJoin = True, canPublish = True,
               canPublishData = True, canSubscribe = True\<rparr>,
      roomConfig = (if truthy agentName then Some agentName else None)\<rparr>"

text \<open>
  The token library (\<open>livekit-server-sdk\<close>) is not part of the repository, and it can
  refuse: its constructor, its room configuration and \<open>toJwt\<close> raise errors, which the
  route's \<open>catch\<close> answers with 500. \<open>token_error\<close> stands for the library's work on one
  token: \<open>Some msg\<close> when it raises an error with message \<open>msg\<close> while the token is
  constructed or signed, \<open>None\<close> when \<open>toJwt\<close> returns the signed token.
\<close>

definition createParticipantToken ::
  "(AccessToken \<Rightarrow> string option) \<Rightarrow> string \<Rightarrow> string \<Rightarrow> string \<Rightarrow> string \<Rightarrow> string \<Rightarrow>
   string \<Rightarrow> jsval \<Rightarrow> string + AccessToken" where
  "createParticipantToken token_error API_KEY API_SECRET ident nm meta rn agentName =
     (let at = new_AccessToken API_KEY API_SECRET ident nm meta rn agentName
      in case token_error at of Some msg \<Rightarrow> Inl msg | None \<Rightarrow> Inr at)"

text \<open>The part of the route after the session check: read the body, build the token.
  An error of \<open>req.json()\<close> or of the token library is answered with 500 and its
  message.\<close>

definition issue ::
  "(AccessToken \<Rightarrow> string option) \<Rightarrow> string \<Rightarrow> string \<Rightarrow> string \<Rightarrow> request \<Rightarrow> string \<Rightarrow>
   string \<Rightarrow> string option \<Rightarrow> conn_response" where
  "issue token_error url key secret req userId userName sessionId =
     (case json req of
        Inl msg \<Rightarrow> Text 500 msg
      | Inr body \<Rightarrow>
          (let agentName = agentNameOf body;
               rn = ''bank_room_'' @ userId
           in case createParticipantToken token_error key secret userId userName
                     (stringifyObject
                        [(''session_id'',
                          case sessionId of None \<Rightarrow> JUndefined | Some i \<Rightarrow> JString i)])
                     rn agentName of
                Inl msg \<Rightarrow> Text 500 msg
              | Inr token \<Rightarrow>
                  Json \<lparr>serverUrl = url, participantName = userName,
                        participantToken = token, roomName = rn\<rparr>))"

definition POST_connection_details ::
  "(AccessToken \<Rightarrow> string option) \<Rightarrow> env \<Rightarrow> int \<Rightarrow> request \<Rightarrow> db \<Rightarrow>
   conn_response \<times> db_op list" where
  "POST_connection_details token_error e new_Date req d =
     (case LIVEKIT_URL e of
        None \<Rightarrow> (Text 500 ''LIVEKIT_URL is not defined'', [])
      | Some url \<Rightarrow>
     (case LIVEKIT_API_KEY e of
        None \<Rightarrow> (Text 500 ''LIVEKIT_API_KEY is not defined'', [])
      | Some key \<Rightarrow>
     (case LIVEKIT_API_SECRET e of
        None \<Rightarrow> (Text 500 ''LIVEKIT_API_SECRET is not defined'', [])
      | Some secret \<Rightarrow>
     (let userId = headers req ''x-user-id'';
          userName = (case headers req ''x-user-name'' of None \<Rightarrow> ''user'' | Some n \<Rightarrow> n);
          sessionId = headers req ''x-session-id''
      in case userId of
           None \<Rightarrow> (Text 401 ''Unauthorized: missing user id'', [])
         | Some u \<Rightarrow>
             (if u = [] then (Text 401 ''Unauthorized: missing user id'', [])
              else case sessionId of
                     None \<Rightarrow> (issue token_error url key secret req u userName sessionId, [])
                   | Some i \<Rightarrow>
                       (if i = []
                        then (issue token_error url key secret req u userName sessionId, [])
                        else case findSession d i u new_Date of
                               None \<Rightarrow>
                                 (Text 401 ''Unauthorized: invalid session'',
                                  [FindSession i u new_Date])
                             | Some found \<Rightarrow>
                                 (let userDoc = find (\<lambda>x. u_user_id x = u) (users d);
                                      userName' =
                                        (case userDoc of
                                           None \<Rightarrow> userName
                                         | Some doc \<Rightarrow>
                                             (case u_name doc of
                                                None \<Rightarrow> userName
                                              | Some n \<Rightarrow> if n = [] then userName else n))
                                  in (issue token_error url key secret req u userName' sessionId,
                                      [FindSession i u new_Date, FindUser u]))))))))"

text \<open>A fragment of \<open>JSON.parse\<close>, enough to run the handlers on the two texts \<open>null\<close> and
  \<open>{}\<close>, on which it gives what \<open>JSON.parse\<close> gives.\<close>

definition parse_literal :: "string \<Rightarrow> jsval option" where
  "parse_literal t =
     (if t = ''null'' then Some JNull else if t = ''{}'' then Some (JObject []) else None)"

section \<open>Predicates used in the statements\<close>

text \<open>A view is well formed when the promise of the prompt it shows exists and is still
  pending.\<close>

definition wf_view :: "view \<Rightarrow> bool" where
  "wf_view s =
     (case rpcPrompt s of
        None \<Rightarrow> True
      | Some pr \<Rightarrow> promise pr < length (promises s) \<and> promises s ! promise pr = Pending)"

definition is_call :: "event \<Rightarrow> bool" where
  "is_call ev =
     (case ev of
        CallChooseAccount x \<Rightarrow> True
      | CallRequestPayeeAccNo x \<Rightarrow> True
      | CallRequestTpin x \<Rightarrow> True
      | _ \<Rightarrow> False)"

text \<open>A pending promise that the view no longer holds.\<close>

definition orphan :: "nat \<Rightarrow> view \<Rightarrow> bool" where
  "orphan c s =
     (c < length (promises s) \<and> promises s ! c = Pending \<and>
      (case rpcPrompt s of None \<Rightarrow> True | Some pr \<Rightarrow> promise pr \<noteq> c))"

text \<open>The prompt that \<open>handleChooseAccount\<close> shows for a parsed payload that is not
  \<open>null\<close>.\<close>

definition chosen :: "jsval \<Rightarrow> nat \<Rightarrow> RpcPrompt" where
  "chosen parsed p =
     ChooseAccount
       (case get_prop parsed ''prompt'' of
          Inr pr \<Rightarrow> if nullish pr then JString [] else pr
        | Inl e \<Rightarrow> JString [])
       (case get_prop parsed ''accounts'' of
          Inr (JArray xs) \<Rightarrow> xs
        | _ \<Rightarrow> [])
       p"

text \<open>The token the route asks the library for, given the key, the secret, the user id,
  the user name, the session id header and the parsed body.\<close>

definition tokenFor ::
  "string \<Rightarrow> string \<Rightarrow> string \<Rightarrow> string \<Rightarrow> string option \<Rightarrow> jsval \<Rightarrow> AccessToken" where
  "tokenFor key secret u un sid body =
     new_AccessToken key secret u un
       (stringifyObject
          [(''session_id'', case sid of None \<Rightarrow> JUndefined | Some i \<Rightarrow> JString i)])
       (''bank_room_'' @ u) (agentNameOf body)"

definition missingUserId :: "request \<Rightarrow> bool" where
  "missingUserId req = (case headers req ''x-user-id'' of None \<Rightarrow> True | Some u \<Rightarrow> u = [])"

definition invalidSession :: "request \<Rightarrow> db \<Rightarrow> int \<Rightarrow> bool" where
  "invalidSession req d now =
     (case headers req ''x-user-id'' of
        None \<Rightarrow> False
      | Some u \<Rightarrow>
          (case headers req ''x-session-id'' of
             None \<Rightarrow> False
           | Some i \<Rightarrow> i \<noteq> [] \<and> findSession d i u now = None))"

definition configured :: "env \<Rightarrow> bool" where
  "configured e =
     (LIVEKIT_URL e \<noteq> None \<and> LIVEKIT_API_KEY e \<noteq> None \<and> LIVEKIT_API_SECRET e \<noteq> None)"

text \<open>Sample data for the concrete runs.\<close>

definition alice_db :: db where
  "alice_db =
     \<lparr>users = [\<lparr>u_user_id = ''alice'', u_password_hash = ''secret'', u_name = Some ''Alice''\<rparr>],
      sessions = []\<rparr>"

definition sample_env :: env where
  "sample_env =
     \<lparr>LIVEKIT_API_KEY = Some ''key'', LIVEKIT_API_SECRET = Some ''secret'',
      LIVEKIT_URL = Some ''wss://livekit.example''\<rparr>"

text \<open>A sample token library: it refuses an empty key or secret, and an agent name that
  is not a string.\<close>

definition sample_token_error :: "AccessToken \<Rightarrow> string option" where
  "sample_token_error at =
     (if apiKey at = [] \<or> apiSecret at = [] then Some ''api-key and api-secret must be set''
      else case roomConfig at of
             None \<Rightarrow> None
           | Some (JString n) \<Rightarrow> None
           | Some v \<Rightarrow> Some ''cannot encode the agent name'')"

definition session_db :: db where
  "session_db =
     \<lparr>users = [\<lparr>u_user_id = ''alice'', u_password_hash = ''secret'', u_name = Some ''Alice''\<rparr>],
      sessions = [\<lparr>session_id = ''s1'', user_id = ''alice'', created_at = 1700000000000,
                   expires_at = 1700086400000, active = True, revoked_at = None\<rparr>]\<rparr>"

section \<open>Properties\<close>

lemma Number_toString_minus_one: "Number_toString (- 1) = ''-1''"
  by (simp add: Number_toString_def digitsOf.simps)

lemma cancelPayload_input:
  \<open>cancelPayload (Input f t d p) = ''{"tpin":-1,"accountNumber":-1}''\<close>
  by (simp add: cancelPayload_def stringifyObject_def QuoteJSONString_def quoteChar_def
      Number_toString_minus_one)

lemma cancelPayload_chooseAccount:
  \<open>cancelPayload (ChooseAccount pr accs p) = ''{"accountId":-1}''\<close>
  by (simp add: cancelPayload_def stringifyObject_def QuoteJSONString_def quoteChar_def
      Number_toString_minus_one)

lemma wf_initial: "wf_view initial"
  by (simp add: wf_view_def initial_def)

lemma handleChooseAccount_result:
  "handleChooseAccount P payload s =
     (if nullish (parsePayload P payload)
      then s\<lparr>promises := promises s @ [Rejected TypeError]\<rparr>
      else setRpcPrompt (Some (chosen (parsePayload P payload) (length (promises s))))
             (s\<lparr>promises := promises s @ [Pending]\<rparr>))"
  by (cases "parsePayload P payload")
     (auto simp: handleChooseAccount_def chosen_def newPromise_def reject_def settle_def
        nth_append split: option.splits jsval.splits)

lemma wf_step: "wf_view s \<Longrightarrow> wf_view (step P s ev)"
  by (cases ev)
     (auto simp: wf_view_def handleChooseAccount_result chosen_def handleRequestPayeeAccNo_def
        handleRequestTpin_def handleAccountSelect_def handleAccountCancel_def
        handleInputSubmit_def setRpcPrompt_def setInputValue_def newPromise_def reject_def
        resolve_def settle_def Let_def nth_append
        split: option.splits RpcPrompt.splits sum.splits jsval.splits if_splits)

lemma wf_run: "wf_view s \<Longrightarrow> wf_view (run P s evs)"
  unfolding run_def by (induction evs arbitrary: s) (auto simp: wf_step)

text \<open>
  Claim C3, as the code has it. While a TPIN prompt is shown, a submission whose value,
  once trimmed of leading and trailing white space, is not exactly four digits changes
  nothing: the prompt stays in the slot, the buffer is kept, no promise is settled and no
  payload is built.
\<close>

theorem tpin_rejected_locally:
  assumes "rpcPrompt s = Some (Input Tpin t d p)"
    and "\<not> tpinPattern (trim (inputValue s))"
  shows "handleInputSubmit s = s"
  using assms by (simp add: handleInputSubmit_def Let_def)

lemma trim_12a4: "trim ''12a4'' = ''12a4''"
  by (simp add: trim_def isWhiteSpace_def)

lemma not_tpin_12a4: "\<not> tpinPattern ''12a4''"
  by (simp add: tpinPattern_def isDigit_def)

theorem tpin_rejected_locally_witness:
  "handleInputSubmit
     \<lparr>rpcPrompt = Some (Input Tpin ''Transaction PIN'' ''Enter your transaction PIN'' 0),
      inputValue = ''12a4'', promises = [Pending]\<rparr>
   = \<lparr>rpcPrompt = Some (Input Tpin ''Transaction PIN'' ''Enter your transaction PIN'' 0),
      inputValue = ''12a4'', promises = [Pending]\<rparr>"
proof -
  let ?s = "\<lparr>rpcPrompt = Some (Input Tpin ''Transaction PIN'' ''Enter your transaction PIN'' 0),
      inputValue = ''12a4'', promises = [Pending]\<rparr>"
  have h: "rpcPrompt ?s = Some (Input Tpin ''Transaction PIN'' ''Enter your transaction PIN'' 0)"
    by simp
  have n: "\<not> tpinPattern (trim (inputValue ?s))"
    by (simp add: trim_12a4 not_tpin_12a4)
  from tpin_rejected_locally [OF h n] show ?thesis .
qed

text \<open>
  Claim C3 as stated fails for a value that is not four digits as it stands but is after
  trimming. The text field keeps its content when one input prompt replaces another, so
  the six characters typed into the account number prompt are still in the buffer when
  the TPIN prompt is shown; submitting them fulfils the TPIN call with \<open>1234\<close>.
\<close>

theorem tpin_untrimmed_counterexample:
  \<open>\<not> tpinPattern '' 1234 '' \<and>
   rpcPrompt (run parse_literal initial
       [CallRequestPayeeAccNo [], Typed '' 1234 '', CallRequestTpin []]) =
     Some (Input Tpin ''Transaction PIN'' ''Enter your transaction PIN'' 1) \<and>
   inputValue (run parse_literal initial
       [CallRequestPayeeAccNo [], Typed '' 1234 '', CallRequestTpin []]) = '' 1234 '' \<and>
   rpcPrompt (run parse_literal initial
       [CallRequestPayeeAccNo [], Typed '' 1234 '', CallRequestTpin [], Submit]) = None \<and>
   promises (run parse_literal initial
       [CallRequestPayeeAccNo [], Typed '' 1234 '', CallRequestTpin [], Submit]) =
     [Pending, Fulfilled ''{"tpin":"1234"}'']\<close>
  by (simp add: run_def initial_def handleRequestPayeeAccNo_def handleRequestTpin_def
      newPromise_def setRpcPrompt_def setInputValue_def handleInputSubmit_def Let_def
      trim_def isWhiteSpace_def tpinPattern_def isDigit_def resolve_def settle_def
      stringifyObject_def QuoteJSONString_def quoteChar_def)

text \<open>
  Claim C2, as the code has it. In every state the view can reach, cancelling the prompt
  on screen fulfils (does not reject) the promise of the held call and empties the slot.
  The payload is \<open>JSON.stringify({ accountId: -1 })\<close> for the prompt of \<open>chooseAccount\<close>
  and \<open>JSON.stringify({ tpin: -1, accountNumber: -1 })\<close> for the prompts of
  \<open>requestPayeeAccNo\<close> and \<open>requestTpin\<close>: every relevant field is the JSON number
  \<open>-1\<close>, written without quotes, never a string and never another payload.
\<close>

theorem cancel_resolves_with_sentinel:
  assumes "s = run P initial evs" and "rpcPrompt s = Some pr"
  shows \<open>rpcPrompt (handleAccountCancel s) = None \<and>
         promises s ! promise pr = Pending \<and>
         promises (handleAccountCancel s) ! promise pr = Fulfilled (cancelPayload pr) \<and>
         cancelPayload pr =
           (case pr of
              ChooseAccount q accs p \<Rightarrow> stringifyObject [(''accountId'', JNumber (- 1))]
            | Input f t d p \<Rightarrow>
                stringifyObject [(''tpin'', JNumber (- 1)), (''accountNumber'', JNumber (- 1))]) \<and>
         cancelPayload pr =
           (case pr of
              ChooseAccount q accs p \<Rightarrow> ''{"accountId":-1}''
            | Input f t d p \<Rightarrow> ''{"tpin":-1,"accountNumber":-1}'')\<close>
proof -
  have "wf_view s" using assms(1) by (simp add: wf_run wf_initial)
  with assms(2) have w: "promise pr < length (promises s)" "promises s ! promise pr = Pending"
    by (simp_all add: wf_view_def)
  have c: \<open>cancelPayload pr =
           (case pr of
              ChooseAccount q accs p \<Rightarrow> ''{"accountId":-1}''
            | Input f t d p \<Rightarrow> ''{"tpin":-1,"accountNumber":-1}'')\<close>
    by (cases pr) (simp_all only: cancelPayload_input cancelPayload_chooseAccount RpcPrompt.case)
  have n: "cancelPayload pr =
           (case pr of
              ChooseAccount q accs p \<Rightarrow> stringifyObject [(''accountId'', JNumber (- 1))]
            | Input f t d p \<Rightarrow>
                stringifyObject [(''tpin'', JNumber (- 1)), (''accountNumber'', JNumber (- 1))])"
    by (cases pr) (simp_all add: cancelPayload_def)
  from assms(2) w have "rpcPrompt (handleAccountCancel s) = None"
    and "promises (handleAccountCancel s) ! promise pr = Fulfilled (cancelPayload pr)"
    by (simp_all add: handleAccountCancel_def setRpcPrompt_def resolve_def settle_def)
  with w c n show ?thesis by simp
qed

text \<open>
  Claim C2 as stated fails: the sentinel is not the string \<open>"-1"\<close>. Cancelling the
  prompt of \<open>requestTpin\<close> fulfils the call with \<open>{"tpin":-1,"accountNumber":-1}\<close>, which
  is not the text of the object whose two fields are the string \<open>-1\<close>.
\<close>

theorem cancel_sentinel_counterexample:
  \<open>promises (handleAccountCancel (handleRequestTpin [] initial)) =
     [Fulfilled ''{"tpin":-1,"accountNumber":-1}''] \<and>
   stringifyObject [(''tpin'', JString ''-1''), (''accountNumber'', JString ''-1'')] =
     ''{"tpin":"-1","accountNumber":"-1"}'' \<and>
   ''{"tpin":-1,"accountNumber":-1}'' \<noteq>
     stringifyObject [(''tpin'', JString ''-1''), (''accountNumber'', JString ''-1'')]\<close>
  by (simp add: initial_def handleRequestTpin_def newPromise_def setRpcPrompt_def
      handleAccountCancel_def resolve_def settle_def cancelPayload_input
      stringifyObject_def QuoteJSONString_def quoteChar_def)

lemma run_tpin_typed:
  "run P initial [CallRequestTpin [], Typed ''12a4''] =
     \<lparr>rpcPrompt = Some (Input Tpin ''Transaction PIN'' ''Enter your transaction PIN'' 0),
      inputValue = ''12a4'', promises = [Pending]\<rparr>"
  by (simp add: run_def initial_def handleRequestTpin_def newPromise_def setRpcPrompt_def
      setInputValue_def)

theorem cancel_resolves_with_sentinel_witness:
  \<open>rpcPrompt (run parse_literal initial [CallRequestTpin [], Typed ''12a4'']) =
     Some (Input Tpin ''Transaction PIN'' ''Enter your transaction PIN'' 0) \<and>
   promises (handleAccountCancel (run parse_literal initial [CallRequestTpin [], Typed ''12a4'']))
     ! 0 = Fulfilled ''{"tpin":-1,"accountNumber":-1}''\<close>
proof -
  have h: "rpcPrompt (run parse_literal initial [CallRequestTpin [], Typed ''12a4'']) =
     Some (Input Tpin ''Transaction PIN'' ''Enter your transaction PIN'' 0)"
    by (simp add: run_tpin_typed)
  from cancel_resolves_with_sentinel [OF refl h]
  have "promises (handleAccountCancel
            (run parse_literal initial [CallRequestTpin [], Typed ''12a4'']))
          ! promise (Input Tpin ''Transaction PIN'' ''Enter your transaction PIN'' 0) =
        Fulfilled (cancelPayload (Input Tpin ''Transaction PIN'' ''Enter your transaction PIN'' 0))"
    by blast
  with h show ?thesis by (simp add: cancelPayload_input)
qed

lemma orphan_step: "wf_view s \<Longrightarrow> orphan c s \<Longrightarrow> orphan c (step P s ev)"
  by (cases ev)
     (auto simp: orphan_def wf_view_def handleChooseAccount_result chosen_def handleRequestPayeeAccNo_def
        handleRequestTpin_def handleAccountSelect_def handleAccountCancel_def
        handleInputSubmit_def setRpcPrompt_def setInputValue_def newPromise_def reject_def
        resolve_def settle_def Let_def nth_append
        split: option.splits RpcPrompt.splits sum.splits jsval.splits if_splits)

lemma orphan_run: "wf_view s \<Longrightarrow> orphan c s \<Longrightarrow> orphan c (run P s evs)"
proof (induction evs arbitrary: s)
  case Nil
  then show ?case by (simp add: run_def)
next
  case (Cons ev evs)
  from Cons.prems have "wf_view (step P s ev)" "orphan c (step P s ev)"
    by (simp_all add: wf_step orphan_step)
  then have "orphan c (run P (step P s ev) evs)" by (rule Cons.IH)
  then show ?case by (simp add: run_def)
qed

lemma call_accepted:
  assumes "is_call ev" and "promises (step P s ev) ! length (promises s) = Pending"
  shows "\<exists>pr'. rpcPrompt (step P s ev) = Some pr' \<and> promise pr' = length (promises s)"
  using assms
  by (cases ev)
     (auto simp: is_call_def handleChooseAccount_result chosen_def handleRequestPayeeAccNo_def
        handleRequestTpin_def setRpcPrompt_def newPromise_def reject_def settle_def Let_def
        nth_append split: sum.splits)

lemma call_keeps_promises:
  assumes "is_call ev" and "c < length (promises s)"
  shows "promises (step P s ev) ! c = promises s ! c" and "c < length (promises (step P s ev))"
  using assms
  by (cases ev;
      auto simp: is_call_def handleChooseAccount_result chosen_def handleRequestPayeeAccNo_def
        handleRequestTpin_def setRpcPrompt_def newPromise_def reject_def settle_def Let_def
        nth_append split: sum.splits)+

text \<open>
  Claim C1, as the code has it. The slot holds at most one prompt (it is an optional
  value). A second call that arrives while a prompt is pending, and that is not failed
  at once, is neither rejected nor queued: its prompt takes the slot, and the promise of
  the first call is never settled afterwards, whatever happens next, nor does it ever
  come back into the slot.
\<close>

theorem second_call_replaces_pending_prompt:
  assumes "s = run P initial evs0" and "rpcPrompt s = Some pr" and "is_call ev"
    and "promises (step P s ev) ! length (promises s) = Pending"
  shows "(\<exists>pr'. rpcPrompt (step P s ev) = Some pr' \<and> promise pr' = length (promises s)) \<and>
         promise pr < length (promises s) \<and>
         (\<forall>evs. promises (run P (step P s ev) evs) ! promise pr = Pending \<and>
                (\<forall>q. rpcPrompt (run P (step P s ev) evs) = Some q \<longrightarrow> promise q \<noteq> promise pr))"
proof -
  have w: "wf_view s" using assms(1) by (simp add: wf_run wf_initial)
  with assms(2) have r: "promise pr < length (promises s)" "promises s ! promise pr = Pending"
    by (simp_all add: wf_view_def)
  from call_accepted [OF assms(3,4)] obtain pr' where
    n: "rpcPrompt (step P s ev) = Some pr'" "promise pr' = length (promises s)" by blast
  from call_keeps_promises [OF assms(3) r(1)] r n
  have o: "orphan (promise pr) (step P s ev)" by (simp add: orphan_def)
  have w': "wf_view (step P s ev)" using w by (rule wf_step)
  have "\<forall>evs. orphan (promise pr) (run P (step P s ev) evs)"
    using orphan_run [OF w' o] by blast
  then have "\<forall>evs. promises (run P (step P s ev) evs) ! promise pr = Pending \<and>
                (\<forall>q. rpcPrompt (run P (step P s ev) evs) = Some q \<longrightarrow> promise q \<noteq> promise pr)"
    by (auto simp: orphan_def split: option.splits)
  with n r show ?thesis by blast
qed

lemma run_tpin: "run P initial [CallRequestTpin []] =
     \<lparr>rpcPrompt = Some (Input Tpin ''Transaction PIN'' ''Enter your transaction PIN'' 0),
      inputValue = [], promises = [Pending]\<rparr>"
  by (simp add: run_def initial_def handleRequestTpin_def newPromise_def setRpcPrompt_def)

theorem second_call_replaces_pending_prompt_witness:
  \<open>rpcPrompt (run parse_literal initial [CallRequestTpin []]) =
     Some (Input Tpin ''Transaction PIN'' ''Enter your transaction PIN'' 0) \<and>
   is_call (CallRequestPayeeAccNo []) \<and>
   promises (run parse_literal (step parse_literal (run parse_literal initial [CallRequestTpin []])
                (CallRequestPayeeAccNo [])) [ClickCancel]) ! 0 = Pending\<close>
proof -
  let ?s = "run parse_literal initial [CallRequestTpin []]"
  have h: "rpcPrompt ?s = Some (Input Tpin ''Transaction PIN'' ''Enter your transaction PIN'' 0)"
    by (simp add: run_tpin)
  have c: "is_call (CallRequestPayeeAccNo [])" by (simp add: is_call_def)
  have p: "promises (step parse_literal ?s (CallRequestPayeeAccNo [])) ! length (promises ?s)
            = Pending"
    by (simp add: run_tpin handleRequestPayeeAccNo_def newPromise_def setRpcPrompt_def)
  from second_call_replaces_pending_prompt [OF refl h c p]
  have "promises (run parse_literal (step parse_literal ?s (CallRequestPayeeAccNo [])) [ClickCancel])
          ! promise (Input Tpin ''Transaction PIN'' ''Enter your transaction PIN'' 0) = Pending"
    by blast
  with h c show ?thesis by simp
qed

text \<open>
  Claim C1 as stated fails: \<open>requestTpin\<close> and then \<open>requestPayeeAccNo\<close>. The second call
  is accepted and its prompt replaces the first; after the user cancels, the slot is
  empty, the second promise is fulfilled and the first is still pending.
\<close>

theorem second_call_drops_first_counterexample:
  \<open>rpcPrompt (handleRequestPayeeAccNo [] (handleRequestTpin [] initial)) =
     Some (Input AccountNumber ''Payee account number'' ''Enter the payee account number'' 1) \<and>
   promises (handleRequestPayeeAccNo [] (handleRequestTpin [] initial)) = [Pending, Pending] \<and>
   rpcPrompt (handleAccountCancel (handleRequestPayeeAccNo [] (handleRequestTpin [] initial))) =
     None \<and>
   promises (handleAccountCancel (handleRequestPayeeAccNo [] (handleRequestTpin [] initial))) =
     [Pending, Fulfilled ''{"tpin":-1,"accountNumber":-1}'']\<close>
  by (simp add: initial_def handleRequestTpin_def handleRequestPayeeAccNo_def newPromise_def
      setRpcPrompt_def handleAccountCancel_def resolve_def settle_def cancelPayload_input)

text \<open>
  Claim C6 fails on the payload \<open>null\<close>: it is valid JSON, so the fallback of the
  \<open>catch\<close> is not taken, and reading \<open>parsed.accounts\<close> raises a TypeError that rejects
  the call. No prompt is shown.
\<close>

theorem chooseAccount_null_payload_fails:
  assumes "JSON_parse ''null'' = Some JNull"
  shows "handleChooseAccount JSON_parse ''null'' s =
           s\<lparr>promises := promises s @ [Rejected TypeError]\<rparr>"
  using assms
  by (simp add: handleChooseAccount_result parsePayload_def)

theorem chooseAccount_null_payload_fails_witness:
  "parse_literal ''null'' = Some JNull \<and>
   handleChooseAccount parse_literal ''null'' initial =
     \<lparr>rpcPrompt = None, inputValue = [], promises = [Rejected TypeError]\<rparr>"
proof -
  have h: "parse_literal ''null'' = Some JNull" by (simp add: parse_literal_def)
  from chooseAccount_null_payload_fails [of parse_literal initial, OF h] h show ?thesis
    by (simp add: initial_def)
qed

lemma stringifyObject_string:
  \<open>stringifyObject [(k, JString v)] = ''{'' @ QuoteJSONString k @ '':'' @ QuoteJSONString v @ ''}''\<close>
  by (simp add: stringifyObject_def)

text \<open>
  Claim C10. While an input prompt (either field) is shown in a reachable state: a value
  that trims to the empty string changes nothing; whenever the submission changes the
  state, the held promise is fulfilled with the object whose one member, named after
  the field, is the trimmed value, and the slot is emptied; for the account number every
  non-empty trimmed value is accepted.
\<close>

theorem input_submit_trimmed:
  assumes "s = run P initial evs" and "rpcPrompt s = Some (Input f t d p)"
  shows "(trim (inputValue s) = [] \<longrightarrow> handleInputSubmit s = s) \<and>
         (handleInputSubmit s \<noteq> s \<longrightarrow>
            rpcPrompt (handleInputSubmit s) = None \<and>
            promises (handleInputSubmit s) ! p =
              Fulfilled (stringifyObject
                [(case f of AccountNumber \<Rightarrow> ''accountNumber'' | Tpin \<Rightarrow> ''tpin'',
                  JString (trim (inputValue s)))])) \<and>
         (f = AccountNumber \<and> trim (inputValue s) \<noteq> [] \<longrightarrow>
            rpcPrompt (handleInputSubmit s) = None \<and>
            promises (handleInputSubmit s) ! p =
              Fulfilled (stringifyObject [(''accountNumber'', JString (trim (inputValue s)))]))"
proof -
  have "wf_view s" using assms(1) by (simp add: wf_run wf_initial)
  with assms(2) have w: "p < length (promises s)" "promises s ! p = Pending"
    by (simp_all add: wf_view_def)
  show ?thesis
    using assms(2) w
    by (cases f)
       (auto simp: handleInputSubmit_def Let_def setRpcPrompt_def resolve_def settle_def)
qed

lemma find_None_conv: "(find P xs = None) = (\<forall>x\<in>set xs. \<not> P x)"
  by (induction xs) auto

lemma findSession_iff:
  "(findSession d i u now \<noteq> None) =
     (\<exists>r\<in>set (sessions d). session_id r = i \<and> user_id r = u \<and> active r \<and> now < expires_at r)"
  by (auto simp: findSession_def find_None_conv)

lemma POST_login_valid:
  assumes "find (\<lambda>x. u_user_id x = u) (users d) = Some usr"
    and "bcrypt_compare pw (u_password_hash usr)" and "u \<noteq> []" and "pw \<noteq> []"
  shows "POST_login bcrypt_compare sid t1 t2 (Some u) (Some pw) d =
           (LoginOk sid u (case u_name usr of Some n \<Rightarrow> n | None \<Rightarrow> []) (t1 + 86400000),
            d\<lparr>sessions := sessions d @
               [\<lparr>session_id = sid, user_id = u, created_at = t2,
                 expires_at = t1 + 86400000, active = True, revoked_at = None\<rparr>]\<rparr>)"
  using assms by (simp add: POST_login_def Let_def)

text \<open>
  Claim C4, as the code has it. A valid login appends one active session whose
  \<open>expires_at\<close> is 24 hours after the reading of \<open>Date.now()\<close> and whose \<open>created_at\<close> is
  the later reading of \<open>new Date()\<close>; the difference is exactly 24 hours iff the two
  readings are equal. The session lookup of the connection route succeeds iff some
  session has that id and user, is active and expires after \<open>now\<close>; for the new session
  that is so exactly while \<open>now\<close> is before the expiry (unless an older record matches).
\<close>

theorem login_session_expiry_and_validation:
  assumes "find (\<lambda>x. u_user_id x = u) (users d) = Some usr"
    and "bcrypt_compare pw (u_password_hash usr)" and "u \<noteq> []" and "pw \<noteq> []"
  shows "(\<exists>r. sessions (snd (POST_login bcrypt_compare sid t1 t2 (Some u) (Some pw) d)) =
               sessions d @ [r] \<and>
             session_id r = sid \<and> user_id r = u \<and> active r \<and>
             expires_at r = t1 + 86400000 \<and> created_at r = t2 \<and>
             (expires_at r - created_at r = 86400000 \<longleftrightarrow> t2 = t1)) \<and>
         ((findSession d' i u' now \<noteq> None) =
            (\<exists>r\<in>set (sessions d'). session_id r = i \<and> user_id r = u' \<and> active r \<and>
               now < expires_at r)) \<and>
         ((findSession (snd (POST_login bcrypt_compare sid t1 t2 (Some u) (Some pw) d)) sid u now
             \<noteq> None) =
            (now < t1 + 86400000 \<or> findSession d sid u now \<noteq> None))"
proof (intro conjI)
  show "\<exists>r. sessions (snd (POST_login bcrypt_compare sid t1 t2 (Some u) (Some pw) d)) =
               sessions d @ [r] \<and>
             session_id r = sid \<and> user_id r = u \<and> active r \<and>
             expires_at r = t1 + 86400000 \<and> created_at r = t2 \<and>
             (expires_at r - created_at r = 86400000 \<longleftrightarrow> t2 = t1)"
    using assms by (simp add: POST_login_valid) auto
  show "(findSession d' i u' now \<noteq> None) =
            (\<exists>r\<in>set (sessions d'). session_id r = i \<and> user_id r = u' \<and> active r \<and>
               now < expires_at r)"
    by (rule findSession_iff)
  show "(findSession (snd (POST_login bcrypt_compare sid t1 t2 (Some u) (Some pw) d)) sid u now
             \<noteq> None) =
            (now < t1 + 86400000 \<or> findSession d sid u now \<noteq> None)"
  proof -
    have "snd (POST_login bcrypt_compare sid t1 t2 (Some u) (Some pw) d) =
            d\<lparr>sessions := sessions d @
               [\<lparr>session_id = sid, user_id = u, created_at = t2,
                 expires_at = t1 + 86400000, active = True, revoked_at = None\<rparr>]\<rparr>"
      using assms by (simp add: POST_login_valid)
    then show ?thesis unfolding findSession_iff by auto
  qed
qed

text \<open>
  Claim C4 as stated fails when the clock advances between the two readings: here
  \<open>expires_at\<close> is 86399999 ms after \<open>created_at\<close>.
\<close>

theorem login_expiry_counterexample:
  "sessions (snd (POST_login (=) ''s1'' 1700000000000 1700000000001
       (Some ''alice'') (Some ''secret'') alice_db)) =
     [\<lparr>session_id = ''s1'', user_id = ''alice'', created_at = 1700000000001,
       expires_at = 1700086400000, active = True, revoked_at = None\<rparr>] \<and>
   (1700086400000::int) - 1700000000001 = 86399999"
  by (simp add: POST_login_def alice_db_def Let_def)

theorem login_session_expiry_and_validation_witness:
  "find (\<lambda>x. u_user_id x = ''alice'') (users alice_db) =
     Some \<lparr>u_user_id = ''alice'', u_password_hash = ''secret'', u_name = Some ''Alice''\<rparr> \<and>
   (findSession (snd (POST_login (=) ''s1'' 1700000000000 1700000000000
       (Some ''alice'') (Some ''secret'') alice_db)) ''s1'' ''alice'' 1700086399999 \<noteq> None) \<and>
   (findSession (snd (POST_login (=) ''s1'' 1700000000000 1700000000000
       (Some ''alice'') (Some ''secret'') alice_db)) ''s1'' ''alice'' 1700086400000 = None)"
proof -
  let ?usr = "\<lparr>u_user_id = ''alice'', u_password_hash = ''secret'', u_name = Some ''Alice''\<rparr>"
  have h1: "find (\<lambda>x. u_user_id x = ''alice'') (users alice_db) = Some ?usr"
    by (simp add: alice_db_def)
  have h2: "''secret'' = u_password_hash ?usr" by simp
  have h3: "''alice'' \<noteq> []" and h4: "''secret'' \<noteq> []" by simp_all
  have e: "findSession alice_db ''s1'' ''alice'' now = None" for now
    by (simp add: findSession_def alice_db_def)
  have t: "(findSession (snd (POST_login (=) ''s1'' 1700000000000 1700000000000
       (Some ''alice'') (Some ''secret'') alice_db)) ''s1'' ''alice'' now \<noteq> None) =
            (now < 1700000000000 + 86400000 \<or> findSession alice_db ''s1'' ''alice'' now \<noteq> None)"
    for now
    using login_session_expiry_and_validation [of "''alice''" alice_db ?usr "(=)" "''secret''",
        OF h1 h2 h3 h4] by blast
  from t [of 1700086399999] t [of 1700086400000] h1 e show ?thesis by simp
qed

lemma metadata_text:
  \<open>stringifyObject [(''session_id'', case sid of None \<Rightarrow> JUndefined | Some i \<Rightarrow> JString i)] =
     (case sid of None \<Rightarrow> ''{}'' | Some i \<Rightarrow> ''{"session_id":'' @ QuoteJSONString i @ ''}'')\<close>
  by (cases sid) (simp_all add: stringifyObject_def QuoteJSONString_def quoteChar_def)

lemma tokenFor_fields:
  \<open>apiKey (tokenFor key secret u un sid body) = key\<close>
  \<open>apiSecret (tokenFor key secret u un sid body) = secret\<close>
  \<open>identity (tokenFor key secret u un sid body) = u\<close>
  \<open>name (tokenFor key secret u un sid body) = un\<close>
  \<open>ttl (tokenFor key secret u un sid body) = ''15m''\<close>
  \<open>grant (tokenFor key secret u un sid body) =
     \<lparr>room = ''bank_room_'' @ u, roomJoin = True, canPublish = True,
      canPublishData = True, canSubscribe = True\<rparr>\<close>
  \<open>roomConfig (tokenFor key secret u un sid body) =
     (if truthy (agentNameOf body) then Some (agentNameOf body) else None)\<close>
  \<open>metadata (tokenFor key secret u un sid body) =
     (case sid of None \<Rightarrow> ''{}'' | Some i \<Rightarrow> ''{"session_id":'' @ QuoteJSONString i @ ''}'')\<close>
  by (simp_all add: tokenFor_def new_AccessToken_def metadata_text del: append.simps)

lemma issue_outcome:
  "issue L url key secret req u un sid =
     (case json req of
        Inl msg \<Rightarrow> Text 500 msg
      | Inr body \<Rightarrow>
          (case L (tokenFor key secret u un sid body) of
             Some msg \<Rightarrow> Text 500 msg
           | None \<Rightarrow>
               Json \<lparr>serverUrl = url, participantName = un,
                     participantToken = tokenFor key secret u un sid body,
                     roomName = ''bank_room_'' @ u\<rparr>))"
  by (simp add: issue_def createParticipantToken_def tokenFor_def Let_def
      split: sum.splits option.splits)

lemma issue_Json:
  assumes "issue L url key secret req u un sid = Json details"
  shows \<open>roomName details = ''bank_room_'' @ u \<and>
         serverUrl details = url \<and>
         participantName details = un \<and>
         identity (participantToken details) = u \<and>
         ttl (participantToken details) = ''15m'' \<and>
         grant (participantToken details) =
           \<lparr>room = ''bank_room_'' @ u, roomJoin = True, canPublish = True,
            canPublishData = True, canSubscribe = True\<rparr> \<and>
         metadata (participantToken details) =
           (case sid of None \<Rightarrow> ''{}'' | Some i \<Rightarrow> ''{"session_id":'' @ QuoteJSONString i @ ''}'')\<close>
proof (cases "json req")
  case (Inl msg)
  with assms show ?thesis by (simp add: issue_outcome)
next
  case (Inr body)
  show ?thesis
  proof (cases "L (tokenFor key secret u un sid body)")
    case (Some msg)
    with Inr assms show ?thesis by (simp add: issue_outcome)
  next
    case None
    with Inr assms have "details = \<lparr>serverUrl = url, participantName = un,
         participantToken = tokenFor key secret u un sid body,
         roomName = ''bank_room_'' @ u\<rparr>"
      by (simp add: issue_outcome)
    then show ?thesis by (simp add: tokenFor_fields del: append.simps)
  qed
qed

lemma status_issue: "status (issue L url key secret req u un sid) \<noteq> 401"
  by (simp add: issue_outcome split: sum.splits option.splits)

lemma POST_Json_issue:
  assumes "fst (POST_connection_details L e now req d) = Json details"
  shows "\<exists>url key secret u un. headers req ''x-user-id'' = Some u \<and> u \<noteq> [] \<and>
           issue L url key secret req u un (headers req ''x-session-id'') = Json details"
  using assms
  by (auto simp: POST_connection_details_def Let_def
      split: option.splits if_splits)

text \<open>
  Claim C5, as the code has it. Every credential the connection route issues has
  \<open>ttl\<close> \<open>15m\<close>, the user id as identity, and the one grant for the room
  \<open>bank_room_<user_id>\<close> with join, publish, publish-data and subscribe. Its metadata
  carries the session id when the request has an \<open>X-Session-Id\<close> header, and is \<open>{}\<close>
  when it has none.
\<close>

theorem credential_scope:
  assumes "fst (POST_connection_details token_error e now req d) = Json details"
  shows \<open>\<exists>u. headers req ''x-user-id'' = Some u \<and> u \<noteq> [] \<and>
           roomName details = ''bank_room_'' @ u \<and>
           identity (participantToken details) = u \<and>
           ttl (participantToken details) = ''15m'' \<and>
           grant (participantToken details) =
             \<lparr>room = ''bank_room_'' @ u, roomJoin = True, canPublish = True,
              canPublishData = True, canSubscribe = True\<rparr> \<and>
           metadata (participantToken details) =
             (case headers req ''x-session-id'' of
                None \<Rightarrow> ''{}''
              | Some i \<Rightarrow> ''{"session_id":'' @ QuoteJSONString i @ ''}'')\<close>
proof -
  from POST_Json_issue [OF assms] obtain url key secret u un where
    h: "headers req ''x-user-id'' = Some u" "u \<noteq> []"
    and i: "issue token_error url key secret req u un (headers req ''x-session-id'') =
              Json details"
    by blast
  from issue_Json [OF i] h show ?thesis by blast
qed

text \<open>
  Claim C5 as stated fails for a request without \<open>X-Session-Id\<close>: the credential is
  issued and its metadata is \<open>{}\<close>.
\<close>

theorem credential_metadata_counterexample:
  \<open>fst (POST_connection_details sample_token_error sample_env 1700000000500
          \<lparr>headers = [''x-user-id'' \<mapsto> ''alice''], json = Inr (JObject [])\<rparr> session_db) =
     Json \<lparr>serverUrl = ''wss://livekit.example'', participantName = ''user'',
           participantToken =
             \<lparr>apiKey = ''key'', apiSecret = ''secret'', identity = ''alice'', name = ''user'',
              metadata = ''{}'', ttl = ''15m'',
              grant = \<lparr>room = ''bank_room_alice'', roomJoin = True, canPublish = True,
                       canPublishData = True, canSubscribe = True\<rparr>,
              roomConfig = None\<rparr>,
           roomName = ''bank_room_alice''\<rparr>\<close>
  by (simp add: POST_connection_details_def sample_env_def issue_def Let_def
      createParticipantToken_def new_AccessToken_def sample_token_error_def agentNameOf_def
      opt_prop_def stringifyObject_def)

lemma run_with_session:
  \<open>fst (POST_connection_details sample_token_error sample_env 1700000000500
          \<lparr>headers = [''x-user-id'' \<mapsto> ''alice'', ''x-session-id'' \<mapsto> ''s1''],
           json = Inr (JObject [])\<rparr> session_db) =
     Json \<lparr>serverUrl = ''wss://livekit.example'', participantName = ''Alice'',
           participantToken =
             \<lparr>apiKey = ''key'', apiSecret = ''secret'', identity = ''alice'', name = ''Alice'',
              metadata = ''{"session_id":"s1"}'', ttl = ''15m'',
              grant = \<lparr>room = ''bank_room_alice'', roomJoin = True, canPublish = True,
                       canPublishData = True, canSubscribe = True\<rparr>,
              roomConfig = None\<rparr>,
           roomName = ''bank_room_alice''\<rparr>\<close>
  by (simp add: POST_connection_details_def sample_env_def session_db_def findSession_def
      issue_def Let_def createParticipantToken_def new_AccessToken_def
      sample_token_error_def agentNameOf_def opt_prop_def stringifyObject_def
      QuoteJSONString_def quoteChar_def)

theorem credential_scope_witness:
  \<open>fst (POST_connection_details sample_token_error sample_env 1700000000500
          \<lparr>headers = [''x-user-id'' \<mapsto> ''alice'', ''x-session-id'' \<mapsto> ''s1''],
           json = Inr (JObject [])\<rparr> session_db) =
     Json \<lparr>serverUrl = ''wss://livekit.example'', participantName = ''Alice'',
           participantToken =
             \<lparr>apiKey = ''key'', apiSecret = ''secret'', identity = ''alice'', name = ''Alice'',
              metadata = ''{"session_id":"s1"}'', ttl = ''15m'',
              grant = \<lparr>room = ''bank_room_alice'', roomJoin = True, canPublish = True,
                       canPublishData = True, canSubscribe = True\<rparr>,
              roomConfig = None\<rparr>,
           roomName = ''bank_room_alice''\<rparr> \<and>
    (\<exists>u. [''x-user-id'' \<mapsto> ''alice'', ''x-session-id'' \<mapsto> ''s1''] ''x-user-id'' = Some u \<and>
         u \<noteq> [] \<and> ''bank_room_alice'' = ''bank_room_'' @ u)\<close>
proof -
  from credential_scope [OF run_with_session] run_with_session show ?thesis by simp
qed

lemma POST_missing:
  assumes "configured e" and "missingUserId req"
  shows "POST_connection_details L e now req d =
           (Text 401 ''Unauthorized: missing user id'', [])"
  using assms
  by (auto simp: configured_def missingUserId_def POST_connection_details_def
      split: option.splits)

lemma POST_invalid:
  assumes "configured e" and "\<not> missingUserId req" and "invalidSession req d now"
  shows "fst (POST_connection_details L e now req d) =
           Text 401 ''Unauthorized: invalid session''"
  using assms
  by (auto simp: configured_def missingUserId_def invalidSession_def
      POST_connection_details_def split: option.splits)

lemma POST_issue:
  assumes "LIVEKIT_URL e = Some url" and "LIVEKIT_API_KEY e = Some key"
    and "LIVEKIT_API_SECRET e = Some secret"
    and "headers req ''x-user-id'' = Some u" and "u \<noteq> []"
    and "\<not> invalidSession req d now"
    and "\<And>un. Q (issue L url key secret req u un (headers req ''x-session-id''))"
  shows "Q (fst (POST_connection_details L e now req d))"
  using assms
  by (auto simp: invalidSession_def POST_connection_details_def Let_def
      split: option.splits)

text \<open>
  Claim C7, as the code has it. With the three LiveKit settings defined, the route
  answers 401 iff the user id header is missing or empty, or a non-empty session id
  header finds no valid session. A missing user id is refused before any lookup and
  before any credential is built. Otherwise the answer is 500 with the error's message
  when the body is not JSON or when the token library refuses the token that the route
  builds from the key, the secret, the user id and the body's agent name; and it is the
  connection details with that token when neither fails.
\<close>

theorem connection_details_status:
  assumes "LIVEKIT_URL e = Some url" and "LIVEKIT_API_KEY e = Some key"
    and "LIVEKIT_API_SECRET e = Some secret"
  shows "((status (fst (POST_connection_details token_error e now req d)) = 401) =
            (missingUserId req \<or> invalidSession req d now)) \<and>
         (missingUserId req \<longrightarrow>
            POST_connection_details token_error e now req d =
              (Text 401 ''Unauthorized: missing user id'', [])) \<and>
         (\<not> missingUserId req \<and> \<not> invalidSession req d now \<longrightarrow>
            (case json req of
               Inl msg \<Rightarrow>
                 fst (POST_connection_details token_error e now req d) = Text 500 msg
             | Inr body \<Rightarrow>
                 (\<exists>u un. headers req ''x-user-id'' = Some u \<and>
                    (case token_error
                            (tokenFor key secret u un (headers req ''x-session-id'') body) of
                       Some msg \<Rightarrow>
                         fst (POST_connection_details token_error e now req d) = Text 500 msg
                     | None \<Rightarrow>
                         fst (POST_connection_details token_error e now req d) =
                           Json \<lparr>serverUrl = url, participantName = un,
                                 participantToken =
                                   tokenFor key secret u un (headers req ''x-session-id'') body,
                                 roomName = ''bank_room_'' @ u\<rparr>))))"
proof (intro conjI impI)
  have c: "configured e" using assms by (simp add: configured_def)
  show "(status (fst (POST_connection_details token_error e now req d)) = 401) =
            (missingUserId req \<or> invalidSession req d now)"
  proof (cases "missingUserId req")
    case True
    with POST_missing [OF c True] show ?thesis by simp
  next
    case False
    show ?thesis
    proof (cases "invalidSession req d now")
      case True
      with POST_invalid [OF c False True] show ?thesis by simp
    next
      case nv: False
      from False obtain u where u: "headers req ''x-user-id'' = Some u" "u \<noteq> []"
        by (auto simp: missingUserId_def split: option.splits)
      have "status (fst (POST_connection_details token_error e now req d)) \<noteq> 401"
        using assms u nv by (rule POST_issue) (rule status_issue)
      with False nv show ?thesis by simp
    qed
  qed
next
  assume "missingUserId req"
  moreover have "configured e" using assms by (simp add: configured_def)
  ultimately show
    "POST_connection_details token_error e now req d =
       (Text 401 ''Unauthorized: missing user id'', [])"
    by (simp add: POST_missing)
next
  assume a: "\<not> missingUserId req \<and> \<not> invalidSession req d now"
  then have nv: "\<not> invalidSession req d now" by simp
  from a obtain u where u: "headers req ''x-user-id'' = Some u" "u \<noteq> []"
    by (auto simp: missingUserId_def split: option.splits)
  show "case json req of
          Inl msg \<Rightarrow> fst (POST_connection_details token_error e now req d) = Text 500 msg
        | Inr body \<Rightarrow>
            (\<exists>u un. headers req ''x-user-id'' = Some u \<and>
               (case token_error
                       (tokenFor key secret u un (headers req ''x-session-id'') body) of
                  Some msg \<Rightarrow>
                    fst (POST_connection_details token_error e now req d) = Text 500 msg
                | None \<Rightarrow>
                    fst (POST_connection_details token_error e now req d) =
                      Json \<lparr>serverUrl = url, participantName = un,
                            participantToken =
                              tokenFor key secret u un (headers req ''x-session-id'') body,
                            roomName = ''bank_room_'' @ u\<rparr>))"
    using assms u nv
  proof (rule POST_issue)
    fix un
    let ?r = "issue token_error url key secret req u un (headers req ''x-session-id'')"
    show "case json req of
            Inl msg \<Rightarrow> ?r = Text 500 msg
          | Inr body \<Rightarrow>
              (\<exists>u un. headers req ''x-user-id'' = Some u \<and>
                 (case token_error
                         (tokenFor key secret u un (headers req ''x-session-id'') body) of
                    Some msg \<Rightarrow> ?r = Text 500 msg
                  | None \<Rightarrow>
                      ?r = Json \<lparr>serverUrl = url, participantName = un,
                                 participantToken =
                                   tokenFor key secret u un (headers req ''x-session-id'') body,
                                 roomName = ''bank_room_'' @ u\<rparr>))"
    proof (cases "json req")
      case (Inl msg)
      then show ?thesis by (simp add: issue_outcome)
    next
      case (Inr body)
      have "case token_error (tokenFor key secret u un (headers req ''x-session-id'') body) of
              Some msg \<Rightarrow> ?r = Text 500 msg
            | None \<Rightarrow>
                ?r = Json \<lparr>serverUrl = url, participantName = un,
                           participantToken =
                             tokenFor key secret u un (headers req ''x-session-id'') body,
                           roomName = ''bank_room_'' @ u\<rparr>"
        using Inr by (simp add: issue_outcome split: option.splits)
      with u(1) Inr show ?thesis by auto
    qed
  qed
qed

text \<open>An empty key is a defined setting, and the sample library refuses it: 500.\<close>

lemma empty_key_refused:
  "POST_connection_details sample_token_error
     \<lparr>LIVEKIT_API_KEY = Some [], LIVEKIT_API_SECRET = Some ''secret'',
      LIVEKIT_URL = Some ''wss://livekit.example''\<rparr> 1700000000500
     \<lparr>headers = [''x-user-id'' \<mapsto> ''alice''], json = Inr (JObject [])\<rparr> session_db =
   (Text 500 ''api-key and api-secret must be set'', [])"
  by (simp add: POST_connection_details_def issue_outcome sample_token_error_def
      tokenFor_fields)

text \<open>
  Claim C7 as stated fails for a request with a user id, no session id and a body that
  is not JSON: the answer is neither 401 nor the connection details, it is 500.
\<close>

theorem connection_details_body_counterexample:
  "POST_connection_details sample_token_error sample_env 1700000000500
     \<lparr>headers = [''x-user-id'' \<mapsto> ''alice''], json = Inl ''Unexpected end of JSON input''\<rparr>
     session_db =
   (Text 500 ''Unexpected end of JSON input'', [])"
  by (simp add: POST_connection_details_def sample_env_def issue_def)

lemma agent_name_5:
  "agentNameOf (JObject [(''room_config'',
       JObject [(''agents'', JArray [JObject [(''agent_name'', JNumber 5)]])])]) = JNumber 5"
  by (simp add: agentNameOf_def opt_prop_def)

theorem connection_details_status_witness:
  "LIVEKIT_URL sample_env = Some ''wss://livekit.example'' \<and>
   LIVEKIT_API_KEY sample_env = Some ''key'' \<and>
   LIVEKIT_API_SECRET sample_env = Some ''secret'' \<and>
   status (fst (POST_connection_details sample_token_error sample_env 1700000000500
     \<lparr>headers = Map.empty, json = Inr (JObject [])\<rparr> session_db)) = 401 \<and>
   status (fst (POST_connection_details sample_token_error sample_env 1700086400000
     \<lparr>headers = [''x-user-id'' \<mapsto> ''alice'', ''x-session-id'' \<mapsto> ''s1''],
      json = Inr (JObject [])\<rparr> session_db)) = 401 \<and>
   status (fst (POST_connection_details sample_token_error sample_env 1700086399999
     \<lparr>headers = [''x-user-id'' \<mapsto> ''alice'', ''x-session-id'' \<mapsto> ''s1''],
      json = Inr (JObject [])\<rparr> session_db)) \<noteq> 401 \<and>
   fst (POST_connection_details sample_token_error sample_env 1700000000500
     \<lparr>headers = [''x-user-id'' \<mapsto> ''alice''],
      json = Inr (JObject [(''room_config'',
               JObject [(''agents'', JArray [JObject [(''agent_name'', JNumber 5)]])])])\<rparr>
     session_db) = Text 500 ''cannot encode the agent name''"
proof -
  let ?r0 = "\<lparr>headers = Map.empty, json = Inr (JObject [])\<rparr>"
  let ?r1 = "\<lparr>headers = [''x-user-id'' \<mapsto> ''alice'', ''x-session-id'' \<mapsto> ''s1''],
      json = Inr (JObject [])\<rparr>"
  let ?b = "JObject [(''room_config'',
               JObject [(''agents'', JArray [JObject [(''agent_name'', JNumber 5)]])])]"
  let ?r2 = "\<lparr>headers = [''x-user-id'' \<mapsto> ''alice''], json = Inr ?b\<rparr>"
  have e: "LIVEKIT_URL sample_env = Some ''wss://livekit.example''"
    "LIVEKIT_API_KEY sample_env = Some ''key''" "LIVEKIT_API_SECRET sample_env = Some ''secret''"
    by (simp_all add: sample_env_def)
  have m: "missingUserId ?r0" by (simp add: missingUserId_def)
  have n: "\<not> missingUserId ?r1" by (simp add: missingUserId_def)
  have i: "invalidSession ?r1 session_db 1700086400000"
    by (simp add: invalidSession_def findSession_def session_db_def)
  have v: "\<not> invalidSession ?r1 session_db 1700086399999"
    by (simp add: invalidSession_def findSession_def session_db_def)
  have n2: "\<not> missingUserId ?r2" by (simp add: missingUserId_def)
  have v2: "\<not> invalidSession ?r2 session_db 1700000000500"
    by (simp add: invalidSession_def)
  have x: "sample_token_error (tokenFor ''key'' ''secret'' u un sid ?b) =
             Some ''cannot encode the agent name''" for u un sid
    by (simp add: sample_token_error_def tokenFor_fields agent_name_5)
  note t = connection_details_status [OF e, where token_error = sample_token_error]
  from t [of 1700000000500 ?r0 session_db] m
  have 1: "status (fst (POST_connection_details sample_token_error sample_env 1700000000500
     ?r0 session_db)) = 401" by blast
  from t [of 1700086400000 ?r1 session_db] i
  have 2: "status (fst (POST_connection_details sample_token_error sample_env 1700086400000
     ?r1 session_db)) = 401" by blast
  from t [of 1700086399999 ?r1 session_db] n v
  have 3: "status (fst (POST_connection_details sample_token_error sample_env 1700086399999
     ?r1 session_db)) \<noteq> 401" by blast
  from t [of 1700000000500 ?r2 session_db] n2 v2
  have 4: "fst (POST_connection_details sample_token_error sample_env 1700000000500
     ?r2 session_db) = Text 500 ''cannot encode the agent name''"
    by (simp add: x)
  from e 1 2 3 4 show ?thesis by blast
qed

text \<open>
  Claim C9, as the code has it. For a request with a non-empty user id header and no
  session id header, no query is sent to the database and the answer does not depend on
  the database. With the LiveKit settings defined, the token the route builds has the
  metadata \<open>{}\<close>; the credential is issued when the body is JSON and the token library
  accepts that token, and the answer is 500 with the error's message, without a
  credential, when the body is not JSON or the library refuses.
\<close>

theorem no_session_header_skips_validation:
  assumes "headers req ''x-user-id'' = Some u" and "u \<noteq> []"
    and "headers req ''x-session-id'' = None"
  shows "snd (POST_connection_details token_error e now req d) = [] \<and>
         POST_connection_details token_error e now req d =
           POST_connection_details token_error e now req d' \<and>
         (LIVEKIT_URL e = Some url \<and> LIVEKIT_API_KEY e = Some key \<and>
          LIVEKIT_API_SECRET e = Some secret \<longrightarrow>
            (case json req of
               Inl msg \<Rightarrow>
                 fst (POST_connection_details token_error e now req d) = Text 500 msg
             | Inr body \<Rightarrow>
                 (\<exists>un. metadata (tokenFor key secret u un None body) = ''{}'' \<and>
                    (case token_error (tokenFor key secret u un None body) of
                       Some msg \<Rightarrow>
                         fst (POST_connection_details token_error e now req d) = Text 500 msg
                     | None \<Rightarrow>
                         fst (POST_connection_details token_error e now req d) =
                           Json \<lparr>serverUrl = url, participantName = un,
                                 participantToken = tokenFor key secret u un None body,
                                 roomName = ''bank_room_'' @ u\<rparr>))))"
proof (intro conjI impI)
  show "snd (POST_connection_details token_error e now req d) = []"
    using assms by (simp add: POST_connection_details_def split: option.splits)
  show "POST_connection_details token_error e now req d =
          POST_connection_details token_error e now req d'"
    using assms by (simp add: POST_connection_details_def split: option.splits)
next
  assume c: "LIVEKIT_URL e = Some url \<and> LIVEKIT_API_KEY e = Some key \<and>
          LIVEKIT_API_SECRET e = Some secret"
  define un where "un = (case headers req ''x-user-name'' of None \<Rightarrow> ''user'' | Some n \<Rightarrow> n)"
  have r: "fst (POST_connection_details token_error e now req d) =
             issue token_error url key secret req u un None"
    using assms c by (simp add: POST_connection_details_def un_def)
  have md: "metadata (tokenFor key secret u un None body) = ''{}''" for body
    by (simp add: tokenFor_fields)
  show "case json req of
          Inl msg \<Rightarrow> fst (POST_connection_details token_error e now req d) = Text 500 msg
        | Inr body \<Rightarrow>
            (\<exists>un. metadata (tokenFor key secret u un None body) = ''{}'' \<and>
               (case token_error (tokenFor key secret u un None body) of
                  Some msg \<Rightarrow>
                    fst (POST_connection_details token_error e now req d) = Text 500 msg
                | None \<Rightarrow>
                    fst (POST_connection_details token_error e now req d) =
                      Json \<lparr>serverUrl = url, participantName = un,
                            participantToken = tokenFor key secret u un None body,
                            roomName = ''bank_room_'' @ u\<rparr>))"
  proof (cases "json req")
    case (Inl msg)
    with r show ?thesis by (simp add: issue_outcome)
  next
    case (Inr body)
    have "case token_error (tokenFor key secret u un None body) of
            Some msg \<Rightarrow>
              fst (POST_connection_details token_error e now req d) = Text 500 msg
          | None \<Rightarrow>
              fst (POST_connection_details token_error e now req d) =
                Json \<lparr>serverUrl = url, participantName = un,
                      participantToken = tokenFor key secret u un None body,
                      roomName = ''bank_room_'' @ u\<rparr>"
      using r Inr by (simp add: issue_outcome split: option.splits)
    with md [of body] Inr show ?thesis by auto
  qed
qed

text \<open>
  Claim C9 as stated fails when the body is not JSON: no credential is issued.
\<close>

theorem no_session_header_counterexample:
  "POST_connection_details sample_token_error sample_env 1700000000500
     \<lparr>headers = [''x-user-id'' \<mapsto> ''bob'', ''x-user-name'' \<mapsto> ''Bob''],
      json = Inl ''Unexpected token < in JSON at position 0''\<rparr>
     alice_db =
   (Text 500 ''Unexpected token < in JSON at position 0'', [])"
  by (simp add: POST_connection_details_def sample_env_def issue_def)

theorem no_session_header_skips_validation_witness:
  \<open>[''x-user-id'' \<mapsto> ''alice''] ''x-user-id'' = Some ''alice'' \<and>
   [''x-user-id'' \<mapsto> ''alice''] ''x-session-id'' = None \<and>
   snd (POST_connection_details sample_token_error sample_env 1700000000500
     \<lparr>headers = [''x-user-id'' \<mapsto> ''alice''], json = Inr (JObject [])\<rparr> alice_db) = [] \<and>
   (\<exists>details. fst (POST_connection_details sample_token_error sample_env 1700000000500
       \<lparr>headers = [''x-user-id'' \<mapsto> ''alice''], json = Inr (JObject [])\<rparr> alice_db) = Json details \<and>
      metadata (participantToken details) = ''{}'')\<close>
proof -
  let ?r = "\<lparr>headers = [''x-user-id'' \<mapsto> ''alice''], json = Inr (JObject [])\<rparr>"
  have h1: "headers ?r ''x-user-id'' = Some ''alice''" by simp
  have h2: "''alice'' \<noteq> []" by simp
  have h3: "headers ?r ''x-session-id'' = None" by simp
  have e: "LIVEKIT_URL sample_env = Some ''wss://livekit.example'' \<and>
           LIVEKIT_API_KEY sample_env = Some ''key'' \<and>
           LIVEKIT_API_SECRET sample_env = Some ''secret''"
    by (simp add: sample_env_def)
  have a: "agentNameOf (JObject []) = JUndefined" by (simp add: agentNameOf_def opt_prop_def)
  have ok: "sample_token_error (tokenFor ''key'' ''secret'' ''alice'' un None (JObject [])) = None"
    for un by (simp add: sample_token_error_def tokenFor_fields a)
  note t = no_session_header_skips_validation [OF h1 h2 h3,
      of sample_token_error sample_env 1700000000500 alice_db alice_db
        "''wss://livekit.example''" "''key''" "''secret''"]
  from t have 1: "snd (POST_connection_details sample_token_error sample_env 1700000000500
       ?r alice_db) = []" by blast
  from t e have "\<exists>un. metadata (tokenFor ''key'' ''secret'' ''alice'' un None (JObject [])) = ''{}'' \<and>
       (case sample_token_error (tokenFor ''key'' ''secret'' ''alice'' un None (JObject [])) of
          Some msg \<Rightarrow>
            fst (POST_connection_details sample_token_error sample_env 1700000000500
                   ?r alice_db) = Text 500 msg
        | None \<Rightarrow>
            fst (POST_connection_details sample_token_error sample_env 1700000000500
                   ?r alice_db) =
              Json \<lparr>serverUrl = ''wss://livekit.example'', participantName = un,
                    participantToken = tokenFor ''key'' ''secret'' ''alice'' un None (JObject []),
                    roomName = ''bank_room_'' @ ''alice''\<rparr>)"
    by simp
  then have 2: "\<exists>details. fst (POST_connection_details sample_token_error sample_env 1700000000500
       ?r alice_db) = Json details \<and> metadata (participantToken details) = ''{}''"
    by (auto simp: ok)
  from 1 2 show ?thesis by simp
qed

lemma updateOne_twice:
  assumes "\<And>x. P x \<Longrightarrow> P (g x)"
  shows "updateOne P f (updateOne P g xs) = updateOne P (\<lambda>x. f (g x)) xs"
  using assms by (induction xs) auto

lemma updateOne_map:
  assumes "\<And>x. h (f x) = h (g x)"
  shows "map h (updateOne P f xs) = map h (updateOne P g xs)"
  using assms by (induction xs) auto

lemma find_updateOne:
  assumes "\<And>x. P x \<Longrightarrow> P (f x)"
  shows "find P (updateOne P f xs) = map_option f (find P xs)"
  using assms by (induction xs) auto

text \<open>
  Claim C8, as the code has it. A logout with a non-empty session id answers \<open>ok\<close>,
  leaves the users alone, and sets \<open>active\<close> to false and \<open>revoked_at\<close> to the time of
  the call in the first session with that id. A second logout answers \<open>ok\<close> again and
  gives the state a single logout at the later time would give: every field but
  \<open>revoked_at\<close> is as the first logout left it, and \<open>revoked_at\<close> is stamped anew.
\<close>

theorem logout_revokes:
  assumes "i \<noteq> []"
  shows "fst (POST_logout t (Some i) d) = LogoutOk \<and>
         users (snd (POST_logout t (Some i) d)) = users d \<and>
         find (\<lambda>r. session_id r = i) (sessions (snd (POST_logout t (Some i) d))) =
           map_option (\<lambda>r. r\<lparr>active := False, revoked_at := Some t\<rparr>)
             (find (\<lambda>r. session_id r = i) (sessions d)) \<and>
         fst (POST_logout t' (Some i) (snd (POST_logout t (Some i) d))) = LogoutOk \<and>
         snd (POST_logout t' (Some i) (snd (POST_logout t (Some i) d))) =
           snd (POST_logout t' (Some i) d) \<and>
         map (\<lambda>r. r\<lparr>revoked_at := None\<rparr>)
             (sessions (snd (POST_logout t' (Some i) (snd (POST_logout t (Some i) d))))) =
           map (\<lambda>r. r\<lparr>revoked_at := None\<rparr>) (sessions (snd (POST_logout t (Some i) d)))"
proof (intro conjI)
  show "fst (POST_logout t (Some i) d) = LogoutOk"
    using assms by (simp add: POST_logout_def)
  show "users (snd (POST_logout t (Some i) d)) = users d"
    using assms by (simp add: POST_logout_def)
  show "find (\<lambda>r. session_id r = i) (sessions (snd (POST_logout t (Some i) d))) =
           map_option (\<lambda>r. r\<lparr>active := False, revoked_at := Some t\<rparr>)
             (find (\<lambda>r. session_id r = i) (sessions d))"
    using assms by (simp add: POST_logout_def find_updateOne)
  show "fst (POST_logout t' (Some i) (snd (POST_logout t (Some i) d))) = LogoutOk"
    using assms by (simp add: POST_logout_def)
  show "snd (POST_logout t' (Some i) (snd (POST_logout t (Some i) d))) =
           snd (POST_logout t' (Some i) d)"
    using assms by (simp add: POST_logout_def updateOne_twice)
  show "map (\<lambda>r. r\<lparr>revoked_at := None\<rparr>)
             (sessions (snd (POST_logout t' (Some i) (snd (POST_logout t (Some i) d))))) =
           map (\<lambda>r. r\<lparr>revoked_at := None\<rparr>) (sessions (snd (POST_logout t (Some i) d)))"
  proof -
    have "map (\<lambda>r. r\<lparr>revoked_at := None\<rparr>)
            (updateOne (\<lambda>r. session_id r = i)
               (\<lambda>x. x\<lparr>active := False, revoked_at := Some t\<rparr>
                        \<lparr>active := False, revoked_at := Some t'\<rparr>) (sessions d)) =
          map (\<lambda>r. r\<lparr>revoked_at := None\<rparr>)
            (updateOne (\<lambda>r. session_id r = i)
               (\<lambda>r. r\<lparr>active := False, revoked_at := Some t\<rparr>) (sessions d))"
      by (rule updateOne_map) simp
    then show ?thesis
      using assms by (simp add: POST_logout_def updateOne_twice)
  qed
qed

text \<open>
  Claim C8 as stated fails: the second logout changes \<open>revoked_at\<close> of a session that
  is already inactive.
\<close>

theorem logout_twice_counterexample:
  "sessions (snd (POST_logout 1700000001000 (Some ''s1'') session_db)) =
     [\<lparr>session_id = ''s1'', user_id = ''alice'', created_at = 1700000000000,
       expires_at = 1700086400000, active = False, revoked_at = Some 1700000001000\<rparr>] \<and>
   sessions (snd (POST_logout 1700000002000 (Some ''s1'')
       (snd (POST_logout 1700000001000 (Some ''s1'') session_db)))) =
     [\<lparr>session_id = ''s1'', user_id = ''alice'', created_at = 1700000000000,
       expires_at = 1700086400000, active = False, revoked_at = Some 1700000002000\<rparr>]"
  by (simp add: POST_logout_def session_db_def)

theorem logout_revokes_witness:
  "''s1'' \<noteq> [] \<and>
   fst (POST_logout 1700000001000 (Some ''s1'') session_db) = LogoutOk \<and>
   find (\<lambda>r. session_id r = ''s1'')
     (sessions (snd (POST_logout 1700000001000 (Some ''s1'') session_db))) =
     Some \<lparr>session_id = ''s1'', user_id = ''alice'', created_at = 1700000000000,
       expires_at = 1700086400000, active = False, revoked_at = Some 1700000001000\<rparr>"
proof -
  have h: "''s1'' \<noteq> []" by simp
  from logout_revokes [OF h, of 1700000001000 session_db] h show ?thesis
    by (simp add: session_db_def)
qed

lemma trim_blank: "trim ''   '' = []"
  by (simp add: trim_def isWhiteSpace_def)

lemma trim_spaced: "trim ''  12 34 '' = ''12 34''"
  by (simp add: trim_def isWhiteSpace_def)

lemma run_payee_typed:
  "run P initial [CallRequestPayeeAccNo [], Typed v] =
     \<lparr>rpcPrompt = Some (Input AccountNumber ''Payee account number''
                         ''Enter the payee account number'' 0),
      inputValue = v, promises = [Pending]\<rparr>"
  by (simp add: run_def initial_def handleRequestPayeeAccNo_def newPromise_def setRpcPrompt_def
      setInputValue_def)

theorem input_submit_trimmed_witness:
  \<open>handleInputSubmit (run parse_literal initial [CallRequestPayeeAccNo [], Typed ''   '']) =
     run parse_literal initial [CallRequestPayeeAccNo [], Typed ''   ''] \<and>
   promises (handleInputSubmit
       (run parse_literal initial [CallRequestPayeeAccNo [], Typed ''  12 34 ''])) ! 0 =
     Fulfilled ''{"accountNumber":"12 34"}''\<close>
proof -
  let ?p = "Input AccountNumber ''Payee account number'' ''Enter the payee account number'' 0"
  have h: "rpcPrompt (run parse_literal initial [CallRequestPayeeAccNo [], Typed v]) = Some ?p"
    for v by (simp add: run_payee_typed)
  have b: "trim (inputValue (run parse_literal initial [CallRequestPayeeAccNo [], Typed ''   ''])) = []"
    by (simp add: run_payee_typed trim_blank)
  have n: "trim (inputValue (run parse_literal initial [CallRequestPayeeAccNo [], Typed ''  12 34 '']))
             = ''12 34''"
    by (simp add: run_payee_typed trim_spaced)
  have q: \<open>stringifyObject [(''accountNumber'', JString ''12 34'')] = ''{"accountNumber":"12 34"}''\<close>
    by (simp add: stringifyObject_def QuoteJSONString_def quoteChar_def)
  from input_submit_trimmed [OF refl h, of "''   ''"] b
  have 1: "handleInputSubmit (run parse_literal initial [CallRequestPayeeAccNo [], Typed ''   '']) =
     run parse_literal initial [CallRequestPayeeAccNo [], Typed ''   '']" by blast
  from input_submit_trimmed [OF refl h, of "''  12 34 ''"] n q
  have 2: \<open>promises (handleInputSubmit
       (run parse_literal initial [CallRequestPayeeAccNo [], Typed ''  12 34 ''])) ! 0 =
     Fulfilled ''{"accountNumber":"12 34"}''\<close> by simp
  from 1 2 show ?thesis by blast
qed

end
